theory Spec2Isabelle
  imports Main
begin

section \<open>The padz client: values that cross the process boundary\<close>

text \<open>
  The module \<^verbatim>\<open>src/apis/padz.py\<close> wraps the \<^verbatim>\<open>padz\<close> command line tool. Each method
  builds an argument vector, runs the tool once with \<^verbatim>\<open>subprocess.run\<close>, and turns
  what comes back into a value or an exception.

  A Python \<^verbatim>\<open>str\<close> is modelled as a \<open>string\<close>: a list of characters, each standing for
  one code point below 256. A decoded JSON document is a value of \<open>json\<close>. A Python
  \<^verbatim>\<open>dict\<close> keeps one value per key, in insertion order, so an object is an association
  list read with \<open>map_of\<close>. A finite float is kept as a decimal mantissa and exponent,
  \<open>JFloat m e\<close> standing for \<open>m\<close> times ten to the \<open>e\<close>, not rounded to a double; the three
  values \<^verbatim>\<open>nan\<close>, \<^verbatim>\<open>inf\<close> and \<^verbatim>\<open>-inf\<close> have constructors of their own. No function of the
  module looks inside a number.
\<close>

datatype json =
    JNull
  | JBool bool
  | JInt int
  | JFloat int int
  | JNaN
  | JInfinity
  | JNegInfinity
  | JString string
  | JArray "json list"
  | JObject "(string \<times> json) list"

text \<open>
  The exceptions that can leave a method. \<open>PadzError\<close> is the class the module
  declares; its payload is the single constructor argument, which the source takes
  either from a decoded document (any JSON value) or from a string. The others are
  Python's own classes. \<open>KeyError\<close> carries the missing key and \<open>SubprocessError\<close> the
  text \<^verbatim>\<open>str(e)\<close> that the source formats into its own message. A \<open>ValueError\<close> raised
  by the source carries the source's message; one raised inside the standard library
  carries the empty string, its wording being the library's business.
  \<open>RecursionError\<close> is what the interpreter raises when calls nest too deep.
\<close>

datatype exn =
    PadzError json
  | ValueError string
  | JSONDecodeError
  | KeyError string
  | TypeError
  | AttributeError
  | FileNotFoundError
  | SubprocessError string
  | RecursionError
  | OSError

fun is_PadzError :: "exn \<Rightarrow> bool" where
  "is_PadzError (PadzError m) = True"
| "is_PadzError e = False"

subsection \<open>The subprocess\<close>

text \<open>
  One call of \<^verbatim>\<open>subprocess.run(cmd, capture_output=True, text=True, cwd=..., input=...,
  check=False)\<close>: what is handed to the operating system, and what comes back. With
  \<^verbatim>\<open>check=False\<close> a non-zero exit status is a normal completion.
\<close>

record invocation =
  inv_cmd :: "string list"
  inv_cwd :: "string option"
  inv_input :: "string option"

datatype run_outcome =
    Completed int string string
  | Raised exn

text \<open>
  The parts of the Python runtime the module calls but does not define are parameters
  of the model: \<open>spawn\<close> answers a \<^verbatim>\<open>subprocess.run\<close>; \<open>loads\<close> is \<^verbatim>\<open>json.loads\<close>, which
  returns the decoded value or raises; \<open>fromisoformat\<close> is \<^verbatim>\<open>datetime.fromisoformat\<close> on a
  string (\<open>None\<close> for its \<^verbatim>\<open>ValueError\<close>). On a string that is not a JSON document
  \<^verbatim>\<open>json.loads\<close> raises \<^verbatim>\<open>json.JSONDecodeError\<close>, but that is not the only exception it
  can raise: an integer literal longer than the interpreter's digit limit gives a
  plain \<^verbatim>\<open>ValueError\<close> and deeply nested brackets give a \<^verbatim>\<open>RecursionError\<close>. A statement
  about every \<open>platform\<close> holds whatever these three functions compute.
\<close>

record datetime =
  year :: int
  month :: int
  day :: int
  hour :: int
  minute :: int
  second :: int
  microsecond :: int
  utcoffset :: "int option"

record platform =
  spawn :: "invocation \<Rightarrow> run_outcome"
  loads :: "string \<Rightarrow> exn + json"
  fromisoformat :: "string \<Rightarrow> datetime option"

text \<open>
  The state threaded through every method is the list of calls of \<^verbatim>\<open>subprocess.run\<close>
  made so far, oldest first. A method that returns the list unchanged has not tried
  to spawn anything.
\<close>

definition subprocess_run :: "platform \<Rightarrow> invocation \<Rightarrow> invocation list \<Rightarrow> run_outcome \<times> invocation list" where
  "subprocess_run P call procs = (spawn P call, procs @ [call])"

subsection \<open>Python string operations used by the module\<close>

text \<open>\<^verbatim>\<open>str(n)\<close> for an integer: decimal digits, a leading minus sign when negative.\<close>

definition digit_char :: "nat \<Rightarrow> char" where
  "digit_char d = char_of (of_char (CHR ''0'') + d)"

fun str_nat :: "nat \<Rightarrow> string" where
  "str_nat n = (if n < 10 then [digit_char n] else str_nat (n div 10) @ [digit_char (n mod 10)])"

declare str_nat.simps [simp del]

definition str_int :: "int \<Rightarrow> string" where
  "str_int i = (if i < 0 then CHR ''-'' # str_nat (nat (- i)) else str_nat (nat i))"

text \<open>
  \<^verbatim>\<open>s.strip()\<close> removes leading and trailing whitespace. Below code point 256 Python's
  \<^verbatim>\<open>str.isspace\<close> holds for 9 to 13, 28 to 32, 133 and 160.
\<close>

definition isspace :: "char \<Rightarrow> bool" where
  "isspace c = (let n = (of_char c :: nat) in
     (9 \<le> n \<and> n \<le> 13) \<or> (28 \<le> n \<and> n \<le> 32) \<or> n = 133 \<or> n = 160)"

definition strip :: "string \<Rightarrow> string" where
  "strip s = rev (dropWhile isspace (rev (dropWhile isspace s)))"

text \<open>\<^verbatim>\<open>s.replace('Z', '+00:00')\<close> rewrites every occurrence.\<close>

definition replace_Z :: "string \<Rightarrow> string" where
  "replace_Z s = concat (map (\<lambda>c. if c = CHR ''Z'' then ''+00:00'' else [c]) s)"

section \<open>The client\<close>

record padz_client =
  cwd :: "string option"

definition with_cwd :: "padz_client \<Rightarrow> string \<Rightarrow> padz_client" where
  "with_cwd self d = \<lparr>cwd = Some d\<rparr>"

text \<open>
  Both error checks of \<^verbatim>\<open>_exec\<close> have the same shape:
  \<^verbatim>\<open>
  try:
      data = json.loads(text)
      if isinstance(data, dict) and 'error' in data:
          raise PadzError(data['error'])
  except json.JSONDecodeError:
      pass
  \<close>
  \<open>embedded_error\<close> gives the exception that leaves this block, or \<open>None\<close> when control
  falls through. The handler names \<^verbatim>\<open>json.JSONDecodeError\<close> only, so any other exception
  of \<^verbatim>\<open>json.loads\<close> leaves the block like the \<^verbatim>\<open>PadzError\<close> does.
\<close>

definition embedded_error :: "platform \<Rightarrow> string \<Rightarrow> exn option" where
  "embedded_error P text =
     (case loads P text of
        Inr (JObject kvs) \<Rightarrow>
          (case map_of kvs ''error'' of Some msg \<Rightarrow> Some (PadzError msg) | None \<Rightarrow> None)
      | Inr data \<Rightarrow> None
      | Inl JSONDecodeError \<Rightarrow> None
      | Inl e \<Rightarrow> Some e)"

text \<open>
  Line 104, \<^verbatim>\<open>result.stderr or result.stdout or f"Command failed with exit code
  {result.returncode}"\<close>: the first of the three that is not empty.
\<close>

definition error_msg :: "int \<Rightarrow> string \<Rightarrow> string \<Rightarrow> string" where
  "error_msg returncode stdout stderr =
     (if stderr \<noteq> [] then stderr
      else if stdout \<noteq> [] then stdout
      else ''Command failed with exit code '' @ str_int returncode)"

text \<open>
  The two \<^verbatim>\<open>except\<close> clauses that close the \<^verbatim>\<open>try\<close> of \<^verbatim>\<open>_exec\<close>. They see every exception
  raised in its body: \<^verbatim>\<open>FileNotFoundError\<close> and \<^verbatim>\<open>subprocess.SubprocessError\<close> are replaced
  by a \<^verbatim>\<open>PadzError\<close>, every other exception passes through unchanged.
\<close>

definition except_clauses :: "exn \<Rightarrow> exn" where
  "except_clauses e =
     (case e of
        FileNotFoundError \<Rightarrow>
          PadzError (JString ''padz command not found. Please ensure padz is installed and in PATH'')
      | SubprocessError m \<Rightarrow> PadzError (JString (''Failed to execute command: '' @ m))
      | _ \<Rightarrow> e)"

text \<open>
  \<^verbatim>\<open>PadzClient._exec\<close>. \<open>tried\<close> is the outcome of the \<^verbatim>\<open>try\<close> body, lines 82 to 113: an
  exception of \<^verbatim>\<open>subprocess.run\<close>, an exception leaving one of the two error checks, the
  \<^verbatim>\<open>PadzError\<close> of line 111, or standard output.
\<close>

definition exec :: "platform \<Rightarrow> padz_client \<Rightarrow> string list \<Rightarrow> string option \<Rightarrow> invocation list
    \<Rightarrow> (exn + string) \<times> invocation list" where
  "exec P self args input_text procs =
     (let cmd = ''padz'' # args;
          (result, procs') =
             subprocess_run P \<lparr>inv_cmd = cmd, inv_cwd = cwd self, inv_input = input_text\<rparr> procs;
          tried =
            (case result of
               Raised e \<Rightarrow> Inl e
             | Completed returncode stdout stderr \<Rightarrow>
                 (case (if stdout \<noteq> [] then embedded_error P stdout else None) of
                    Some e \<Rightarrow> Inl e
                  | None \<Rightarrow>
                      if returncode \<noteq> 0 then
                        (let msg = error_msg returncode stdout stderr
                         in case embedded_error P msg of
                              Some e \<Rightarrow> Inl e
                            | None \<Rightarrow> Inl (PadzError (JString (strip msg))))
                      else Inr stdout))
      in (case tried of Inl e \<Rightarrow> Inl (except_clauses e) | Inr out \<Rightarrow> Inr out, procs'))"

subsection \<open>Reading a decoded document\<close>

text \<open>
  \<^verbatim>\<open>data[key]\<close> with a string key. Only a \<^verbatim>\<open>dict\<close> can answer; a list, a string, a number,
  a boolean and \<^verbatim>\<open>None\<close> raise \<^verbatim>\<open>TypeError\<close>.
\<close>

fun getitem :: "json \<Rightarrow> string \<Rightarrow> exn + json" where
  "getitem (JObject kvs) k = (case map_of kvs k of Some v \<Rightarrow> Inr v | None \<Rightarrow> Inl (KeyError k))"
| "getitem d k = Inl TypeError"

text \<open>\<^verbatim>\<open>data.get(key)\<close>: \<^verbatim>\<open>None\<close> for a missing key; only a \<^verbatim>\<open>dict\<close> has the method.\<close>

fun dict_get :: "json \<Rightarrow> string \<Rightarrow> exn + json" where
  "dict_get (JObject kvs) k = (case map_of kvs k of Some v \<Rightarrow> Inr v | None \<Rightarrow> Inr JNull)"
| "dict_get d k = Inl AttributeError"

text \<open>
  \<^verbatim>\<open>for item in data\<close>: a list yields its elements, a \<^verbatim>\<open>dict\<close> its keys, a string its
  characters; the other values are not iterable.
\<close>

fun iter :: "json \<Rightarrow> exn + json list" where
  "iter (JArray xs) = Inr xs"
| "iter (JObject kvs) = Inr (map (\<lambda>kv. JString (fst kv)) kvs)"
| "iter (JString s) = Inr (map (\<lambda>c. JString [c]) s)"
| "iter d = Inl TypeError"

subsection \<open>Result types\<close>

text \<open>
  The dataclasses declare field types but Python does not enforce them: a field holds
  whatever the decoded document held. Only \<open>created_at\<close> is built by the module.
\<close>

record scratch =
  scratch_id :: json
  project :: json
  title :: json
  created_at :: datetime

record nuke_result =
  deleted_count :: json
  scope :: json
  project_name :: json

text \<open>
  \<^verbatim>\<open>Scratch.from_dict\<close>. The keyword arguments are evaluated in order, so the first
  missing key is the one reported. \<^verbatim>\<open>.replace\<close> exists on strings only.
\<close>

definition from_dict :: "platform \<Rightarrow> json \<Rightarrow> exn + scratch" where
  "from_dict P data =
     (case getitem data ''id'' of Inl e \<Rightarrow> Inl e | Inr i \<Rightarrow>
      case getitem data ''project'' of Inl e \<Rightarrow> Inl e | Inr p \<Rightarrow>
      case getitem data ''title'' of Inl e \<Rightarrow> Inl e | Inr t \<Rightarrow>
      case getitem data ''created_at'' of Inl e \<Rightarrow> Inl e | Inr c \<Rightarrow>
      (case c of
         JString s \<Rightarrow>
           (case fromisoformat P (replace_Z s) of
              None \<Rightarrow> Inl (ValueError [])
            | Some d \<Rightarrow> Inr \<lparr>scratch_id = i, project = p, title = t, created_at = d\<rparr>)
       | _ \<Rightarrow> Inl AttributeError))"

text \<open>\<^verbatim>\<open>[Scratch.from_dict(item) for item in items]\<close>: the first exception ends the loop.\<close>

fun from_dicts :: "platform \<Rightarrow> json list \<Rightarrow> exn + scratch list" where
  "from_dicts P [] = Inr []"
| "from_dicts P (item # items) =
     (case from_dict P item of
        Inl e \<Rightarrow> Inl e
      | Inr s \<Rightarrow> (case from_dicts P items of Inl e \<Rightarrow> Inl e | Inr ss \<Rightarrow> Inr (s # ss)))"

definition scratches_of :: "platform \<Rightarrow> json \<Rightarrow> exn + scratch list" where
  "scratches_of P data = (case iter data of Inl e \<Rightarrow> Inl e | Inr items \<Rightarrow> from_dicts P items)"

definition nuke_result_of :: "json \<Rightarrow> exn + nuke_result" where
  "nuke_result_of data =
     (case getitem data ''deleted_count'' of Inl e \<Rightarrow> Inl e | Inr n \<Rightarrow>
      case getitem data ''scope'' of Inl e \<Rightarrow> Inl e | Inr s \<Rightarrow>
      case dict_get data ''project_name'' of Inl e \<Rightarrow> Inl e | Inr pn \<Rightarrow>
      Inr \<lparr>deleted_count = n, scope = s, project_name = pn\<rparr>)"

subsection \<open>The ten methods\<close>

text \<open>
  Seven methods continue with the same two lines,
  \<^verbatim>\<open>output = self._exec(args)\<close> and \<^verbatim>\<open>data = json.loads(output)\<close>, and then map \<open>data\<close>.
  \<open>exec_loads\<close> is those two lines followed by the mapping \<open>f\<close>; the decode is not
  inside any \<^verbatim>\<open>try\<close>, so whatever \<^verbatim>\<open>json.loads\<close> raises leaves the method.
\<close>

definition exec_loads :: "platform \<Rightarrow> padz_client \<Rightarrow> string list \<Rightarrow> string option \<Rightarrow> (json \<Rightarrow> exn + 'a)
    \<Rightarrow> invocation list \<Rightarrow> (exn + 'a) \<times> invocation list" where
  "exec_loads P self args input_text f procs =
     (case exec P self args input_text procs of
        (Inl e, procs') \<Rightarrow> (Inl e, procs')
      | (Inr output, procs') \<Rightarrow>
          (case loads P output of
             Inl e \<Rightarrow> (Inl e, procs')
           | Inr data \<Rightarrow> (f data, procs')))"


text \<open>
  Every method starts its argument list with the fixed words and appends one word
  for each scope switch that is set, as in \<^verbatim>\<open>if all: args.append('--all')\<close>.
\<close>

definition flag :: "bool \<Rightarrow> string \<Rightarrow> string list" where
  "flag b name = (if b then [name] else [])"

definition create_args :: "string list" where
  "create_args = [''--format'', ''json'']"

definition list_args :: "bool \<Rightarrow> bool \<Rightarrow> string list" where
  "list_args all global = [''ls'', ''--format'', ''json''] @ flag all ''--all'' @ flag global ''--global''"

definition view_args :: "int \<Rightarrow> bool \<Rightarrow> bool \<Rightarrow> string list" where
  "view_args index all global =
     [''view'', str_int index, ''--format'', ''json''] @ flag all ''--all'' @ flag global ''--global''"


definition peek_args :: "int \<Rightarrow> bool \<Rightarrow> bool \<Rightarrow> int \<Rightarrow> string list" where
  "peek_args index all global lines =
     [''peek'', str_int index, ''--format'', ''json'', ''--lines'', str_int lines]
     @ flag all ''--all'' @ flag global ''--global''"


definition path_args :: "int \<Rightarrow> bool \<Rightarrow> string list" where
  "path_args index all = [''path'', str_int index, ''--format'', ''json''] @ flag all ''--all''"

definition search_args :: "string \<Rightarrow> bool \<Rightarrow> bool \<Rightarrow> string list" where
  "search_args term all global =
     [''search'', term, ''--format'', ''json''] @ flag all ''--all'' @ flag global ''--global''"

definition cleanup_args :: "int \<Rightarrow> string list" where
  "cleanup_args days = [''cleanup'', ''--format'', ''json'', ''--days'', str_int days]"

definition nuke_args :: "bool \<Rightarrow> string list" where
  "nuke_args all = [''nuke'', ''--format'', ''json'', ''--yes''] @ flag all ''--all''"

text \<open>
  The methods. \<^verbatim>\<open>list\<close> and the others keep their names; \<^verbatim>\<open>open\<close> is a keyword of the
  theory language and is called \<open>open_scratch\<close>.
\<close>

definition create :: "platform \<Rightarrow> padz_client \<Rightarrow> string \<Rightarrow> invocation list
    \<Rightarrow> (exn + scratch) \<times> invocation list" where
  "create P self content procs =
     (if content = [] then (Inl (ValueError ''Content cannot be empty''), procs)
      else exec_loads P self create_args (Some content) (from_dict P) procs)"

definition list :: "platform \<Rightarrow> padz_client \<Rightarrow> bool \<Rightarrow> bool \<Rightarrow> invocation list
    \<Rightarrow> (exn + scratch list) \<times> invocation list" where
  "list P self all global procs =
     exec_loads P self (list_args all global) None (scratches_of P) procs"

definition view :: "platform \<Rightarrow> padz_client \<Rightarrow> int \<Rightarrow> bool \<Rightarrow> bool \<Rightarrow> invocation list
    \<Rightarrow> (exn + json) \<times> invocation list" where
  "view P self index all global procs =
     exec_loads P self (view_args index all global) None (\<lambda>data. getitem data ''content'') procs"


definition peek :: "platform \<Rightarrow> padz_client \<Rightarrow> int \<Rightarrow> bool \<Rightarrow> bool \<Rightarrow> int \<Rightarrow> invocation list
    \<Rightarrow> (exn + json) \<times> invocation list" where
  "peek P self index all global lines procs =
     exec_loads P self (peek_args index all global lines) None (\<lambda>data. getitem data ''content'') procs"


definition path :: "platform \<Rightarrow> padz_client \<Rightarrow> int \<Rightarrow> bool \<Rightarrow> invocation list
    \<Rightarrow> (exn + json) \<times> invocation list" where
  "path P self index all procs =
     exec_loads P self (path_args index all) None (\<lambda>data. getitem data ''path'') procs"

definition search :: "platform \<Rightarrow> padz_client \<Rightarrow> string \<Rightarrow> bool \<Rightarrow> bool \<Rightarrow> invocation list
    \<Rightarrow> (exn + scratch list) \<times> invocation list" where
  "search P self term all global procs =
     exec_loads P self (search_args term all global) None (scratches_of P) procs"


definition nuke :: "platform \<Rightarrow> padz_client \<Rightarrow> bool \<Rightarrow> bool \<Rightarrow> invocation list
    \<Rightarrow> (exn + nuke_result) \<times> invocation list" where
  "nuke P self all yes procs =
     (if \<not> yes then
        (Inl (PadzError (JString ''Must set yes=True for non-interactive nuke operation'')), procs)
      else exec_loads P self (nuke_args all) None nuke_result_of procs)"

section \<open>A reference runtime\<close>

text \<open>
  The theorems below hold for every \<open>platform\<close>. To run the model on concrete inputs
  the three library functions need values. This section gives executable ones,
  following CPython 3.7 to 3.10 in their current releases: the versions in which
  \<^verbatim>\<open>datetime.fromisoformat\<close> does not accept a trailing \<^verbatim>\<open>Z\<close>, which the module works
  around.
\<close>

subsection \<open>Decimal and hexadecimal digits\<close>

definition is_digit :: "char \<Rightarrow> bool" where
  "is_digit c = (let n = (of_char c :: nat) in 48 \<le> n \<and> n \<le> 57)"

definition digit_val :: "char \<Rightarrow> int" where
  "digit_val c = of_char c - 48"

fun digits_val :: "int \<Rightarrow> string \<Rightarrow> int" where
  "digits_val acc [] = acc"
| "digits_val acc (c # cs) = digits_val (10 * acc + digit_val c) cs"

definition number :: "string \<Rightarrow> int option" where
  "number s = (if s \<noteq> [] \<and> list_all is_digit s then Some (digits_val 0 s) else None)"

definition hex_val :: "char \<Rightarrow> nat option" where
  "hex_val c =
     (let n = (of_char c :: nat) in
      if 48 \<le> n \<and> n \<le> 57 then Some (n - 48)
      else if 65 \<le> n \<and> n \<le> 70 then Some (n - 55)
      else if 97 \<le> n \<and> n \<le> 102 then Some (n - 87)
      else None)"

subsection \<open>Decoding JSON\<close>

text \<open>
  A recursive-descent decoder after \<^verbatim>\<open>json.decoder\<close> and \<^verbatim>\<open>json.scanner\<close>: objects,
  arrays, strings with their escapes, numbers, the literals \<^verbatim>\<open>null\<close>, \<^verbatim>\<open>true\<close> and
  \<^verbatim>\<open>false\<close>, and the constants \<^verbatim>\<open>NaN\<close>, \<^verbatim>\<open>Infinity\<close> and \<^verbatim>\<open>-Infinity\<close> that Python accepts.
  A syntax error is a \<open>JSONDecodeError\<close>. A repeated key keeps its first position and
  its last value, as assignment to a \<^verbatim>\<open>dict\<close> does.

  A number without fraction and exponent is converted with \<^verbatim>\<open>int\<close>, which raises
  \<^verbatim>\<open>ValueError\<close> when the literal has more than 4300 digits; the exception is raised
  when the number has been read, before the rest of the text is looked at.

  Two limits come from the representation. A \<^verbatim>\<open>\uXXXX\<close> escape is decoded when its code
  point is below 256, the alphabet of \<open>string\<close>, and rejected otherwise. The depth at
  which the interpreter raises \<^verbatim>\<open>RecursionError\<close> depends on its stack and is not
  modelled: the first argument of the three mutually recursive functions only bounds
  the number of calls, \<open>json_loads\<close> starts with more than twice the length of the text,
  and a text that exhausts the bound is rejected.
\<close>

definition json_ws :: "char \<Rightarrow> bool" where
  "json_ws c = (c = CHR '' '' \<or> c = CHR 0x09 \<or> c = CHR 0x0A \<or> c = CHR 0x0D)"

definition skip_ws :: "string \<Rightarrow> string" where
  "skip_ws s = dropWhile json_ws s"

definition unescape :: "char \<Rightarrow> char option" where
  "unescape c =
     (if c = CHR 0x22 then Some (CHR 0x22)
      else if c = CHR 0x5C then Some (CHR 0x5C)
      else if c = CHR ''/'' then Some (CHR ''/'')
      else if c = CHR ''b'' then Some (CHR 0x08)
      else if c = CHR ''f'' then Some (CHR 0x0C)
      else if c = CHR ''n'' then Some (CHR 0x0A)
      else if c = CHR ''r'' then Some (CHR 0x0D)
      else if c = CHR ''t'' then Some (CHR 0x09)
      else None)"

text \<open>The four hexadecimal digits after \<^verbatim>\<open>\u\<close>.\<close>

definition unicode_escape :: "string \<Rightarrow> char option" where
  "unicode_escape ds =
     (case map hex_val ds of
        [Some a, Some b, Some c, Some d] \<Rightarrow>
          if a = 0 \<and> b = 0 then Some (char_of (16 * c + d)) else None
      | _ \<Rightarrow> None)"

text \<open>
  The body of a string, after the opening quote: up to the closing quote, with the
  characters read so far in \<open>acc\<close>, newest first. A control character must be escaped.
\<close>

fun scan_string :: "string \<Rightarrow> string \<Rightarrow> (string \<times> string) option" where
  "scan_string acc [] = None"
| "scan_string acc [c] = (if c = CHR 0x22 then Some (rev acc, []) else None)"
| "scan_string acc (c # d # cs) =
     (if c = CHR 0x22 then Some (rev acc, d # cs)
      else if c = CHR 0x5C then
        (if d = CHR ''u'' then
           (case unicode_escape (take 4 cs) of
              None \<Rightarrow> None
            | Some u \<Rightarrow> scan_string (u # acc) (drop 4 cs))
         else
           (case unescape d of None \<Rightarrow> None | Some u \<Rightarrow> scan_string (u # acc) cs))
      else if (of_char c :: nat) < 32 then None
      else scan_string (c # acc) (d # cs))"

text \<open>
  A number, by the pattern \<^verbatim>\<open>(-?(?:0|[1-9]\d*))(\.\d+)?([eE][-+]?\d+)?\<close>: the integer
  part, then a fraction if a digit follows the point, then an exponent if a digit
  follows the \<^verbatim>\<open>e\<close> and its sign.
\<close>

definition scan_number :: "string \<Rightarrow> exn + (json \<times> string)" where
  "scan_number s =
     (let neg = (take 1 s = ''-'');
          body = (if neg then drop 1 s else s);
          ds = takeWhile is_digit body;
          integer = (if take 1 ds = ''0'' then ''0'' else ds);
          s1 = drop (length integer) body;
          fd = (if take 1 s1 = ''.'' then takeWhile is_digit (drop 1 s1) else []);
          s2 = (if fd = [] then s1 else drop (Suc (length fd)) s1);
          e0 = (if take 1 s2 = ''e'' \<or> take 1 s2 = ''E'' then drop 1 s2 else []);
          e1 = (if take 1 e0 = ''-'' \<or> take 1 e0 = ''+'' then drop 1 e0 else e0);
          ed = takeWhile is_digit e1;
          s3 = (if ed = [] then s2 else dropWhile is_digit e1);
          sign = (if neg then - 1 else 1);
          exponent = (if take 1 e0 = ''-'' then - digits_val 0 ed else digits_val 0 ed)
      in if integer = [] then Inl JSONDecodeError
         else if fd = [] \<and> ed = [] then
           (if length integer > 4300 then Inl (ValueError [])
            else Inr (JInt (sign * digits_val 0 integer), s1))
         else Inr (JFloat (sign * digits_val 0 (integer @ fd)) (exponent - int (length fd)), s3))"

text \<open>\<^verbatim>\<open>d[k] = v\<close> on an association list.\<close>

fun dict_set :: "(string \<times> json) list \<Rightarrow> string \<Rightarrow> json \<Rightarrow> (string \<times> json) list" where
  "dict_set [] k v = [(k, v)]"
| "dict_set (kv # kvs) k v = (if fst kv = k then (k, v) # kvs else kv # dict_set kvs k v)"

fun parse_value :: "nat \<Rightarrow> string \<Rightarrow> exn + (json \<times> string)"
  and parse_elements :: "nat \<Rightarrow> json list \<Rightarrow> string \<Rightarrow> exn + (json \<times> string)"
  and parse_members :: "nat \<Rightarrow> (string \<times> json) list \<Rightarrow> string \<Rightarrow> exn + (json \<times> string)"
where
  "parse_value 0 s = Inl JSONDecodeError"
| "parse_value (Suc n) s =
     (case s of
        [] \<Rightarrow> Inl JSONDecodeError
      | c # cs \<Rightarrow>
          if c = CHR 0x22 then
            (case scan_string [] cs of
               None \<Rightarrow> Inl JSONDecodeError
             | Some (str, rest) \<Rightarrow> Inr (JString str, rest))
          else if c = CHR ''['' then
            (case skip_ws cs of
               [] \<Rightarrow> Inl JSONDecodeError
             | d # ds \<Rightarrow> if d = CHR '']'' then Inr (JArray [], ds) else parse_elements n [] (d # ds))
          else if c = CHR ''{'' then
            (case skip_ws cs of
               [] \<Rightarrow> Inl JSONDecodeError
             | d # ds \<Rightarrow> if d = CHR ''}'' then Inr (JObject [], ds) else parse_members n [] (d # ds))
          else if c = CHR ''n'' \<and> take 3 cs = ''ull'' then Inr (JNull, drop 3 cs)
          else if c = CHR ''t'' \<and> take 3 cs = ''rue'' then Inr (JBool True, drop 3 cs)
          else if c = CHR ''f'' \<and> take 4 cs = ''alse'' then Inr (JBool False, drop 4 cs)
          else if c = CHR ''N'' \<and> take 2 cs = ''aN'' then Inr (JNaN, drop 2 cs)
          else if c = CHR ''I'' \<and> take 7 cs = ''nfinity'' then Inr (JInfinity, drop 7 cs)
          else if c = CHR ''-'' \<and> take 8 cs = ''Infinity'' then Inr (JNegInfinity, drop 8 cs)
          else scan_number s)"
| "parse_elements 0 acc s = Inl JSONDecodeError"
| "parse_elements (Suc n) acc s =
     (case parse_value n s of
        Inl e \<Rightarrow> Inl e
      | Inr (v, rest) \<Rightarrow>
          (case skip_ws rest of
             [] \<Rightarrow> Inl JSONDecodeError
           | c # cs \<Rightarrow>
               if c = CHR '','' then parse_elements n (v # acc) (skip_ws cs)
               else if c = CHR '']'' then Inr (JArray (rev (v # acc)), cs)
               else Inl JSONDecodeError))"
| "parse_members 0 acc s = Inl JSONDecodeError"
| "parse_members (Suc n) acc s =
     (case s of
        [] \<Rightarrow> Inl JSONDecodeError
      | q # qs \<Rightarrow>
          if q \<noteq> CHR 0x22 then Inl JSONDecodeError
          else
            (case scan_string [] qs of
               None \<Rightarrow> Inl JSONDecodeError
             | Some (k, rest) \<Rightarrow>
                 (case skip_ws rest of
                    [] \<Rightarrow> Inl JSONDecodeError
                  | c # cs \<Rightarrow>
                      if c \<noteq> CHR '':'' then Inl JSONDecodeError
                      else
                        (case parse_value n (skip_ws cs) of
                           Inl e \<Rightarrow> Inl e
                         | Inr (v, rest') \<Rightarrow>
                             (case skip_ws rest' of
                                [] \<Rightarrow> Inl JSONDecodeError
                              | d # ds \<Rightarrow>
                                  if d = CHR '','' then parse_members n (dict_set acc k v) (skip_ws ds)
                                  else if d = CHR ''}'' then Inr (JObject (dict_set acc k v), ds)
                                  else Inl JSONDecodeError)))))"

definition json_loads :: "string \<Rightarrow> exn + json" where
  "json_loads s =
     (case parse_value (Suc (2 * length s)) (skip_ws s) of
        Inl e \<Rightarrow> Inl e
      | Inr (v, rest) \<Rightarrow> if skip_ws rest = [] then Inr v else Inl JSONDecodeError)"

subsection \<open>Parsing ISO 8601 timestamps\<close>

text \<open>
  \<^verbatim>\<open>datetime.fromisoformat\<close> as Python 3.7 to 3.10 define it, for the format \<^verbatim>\<open>YYYY-MM-DD[*HH[:MM[:SS[.fff[fff]]]][+HH:MM[:SS[.ffffff]]]]\<close>, following the
  structure of the library's \<^verbatim>\<open>_parse_isoformat_date\<close>, \<^verbatim>\<open>_parse_hh_mm_ss_ff\<close> and
  \<^verbatim>\<open>_parse_isoformat_time\<close>, with the range checks of the \<^verbatim>\<open>datetime\<close> and \<^verbatim>\<open>timezone\<close>
  constructors. Every field is made of decimal digits. The offset from UTC is kept in
  microseconds; \<open>None\<close> is a naive timestamp. A trailing \<^verbatim>\<open>Z\<close> is not part of this format,
  which is why the module rewrites it.
\<close>

definition parse_isoformat_date :: "string \<Rightarrow> (int \<times> int \<times> int) option" where
  "parse_isoformat_date dstr =
     (case (number (take 4 dstr), number (take 2 (drop 5 dstr)), number (take 2 (drop 8 dstr))) of
        (Some y, Some m, Some d) \<Rightarrow>
          if take 1 (drop 4 dstr) = ''-'' \<and> take 1 (drop 7 dstr) = ''-'' then Some (y, m, d) else None
      | _ \<Rightarrow> None)"

definition two_digits :: "string \<Rightarrow> (int \<times> string) option" where
  "two_digits s =
     (if length s < 2 then None
      else case number (take 2 s) of None \<Rightarrow> None | Some v \<Rightarrow> Some (v, drop 2 s))"

definition fraction :: "string \<Rightarrow> int option" where
  "fraction frac =
     (if length frac = 3 then (case number frac of None \<Rightarrow> None | Some us \<Rightarrow> Some (us * 1000))
      else if length frac = 6 then number frac
      else None)"

definition parse_hh_mm_ss_ff :: "string \<Rightarrow> (int \<times> int \<times> int \<times> int) option" where
  "parse_hh_mm_ss_ff tstr =
     (case two_digits tstr of
        None \<Rightarrow> None
      | Some (hh, r0) \<Rightarrow>
          if r0 = [] then Some (hh, 0, 0, 0)
          else if hd r0 \<noteq> CHR '':'' then None
          else (case two_digits (tl r0) of
                  None \<Rightarrow> None
                | Some (mm, r1) \<Rightarrow>
                    if r1 = [] then Some (hh, mm, 0, 0)
                    else if hd r1 \<noteq> CHR '':'' then None
                    else (case two_digits (tl r1) of
                            None \<Rightarrow> None
                          | Some (ss, r2) \<Rightarrow>
                              if r2 = [] then Some (hh, mm, ss, 0)
                              else if hd r2 \<noteq> CHR ''.'' then None
                              else (case fraction (tl r2) of
                                      None \<Rightarrow> None
                                    | Some us \<Rightarrow> Some (hh, mm, ss, us)))))"

definition tz_split :: "string \<Rightarrow> (string \<times> (char \<times> string) option)" where
  "tz_split tstr =
     (if CHR ''-'' \<in> set tstr then
        (takeWhile (\<lambda>c. c \<noteq> CHR ''-'') tstr, Some (CHR ''-'', tl (dropWhile (\<lambda>c. c \<noteq> CHR ''-'') tstr)))
      else if CHR ''+'' \<in> set tstr then
        (takeWhile (\<lambda>c. c \<noteq> CHR ''+'') tstr, Some (CHR ''+'', tl (dropWhile (\<lambda>c. c \<noteq> CHR ''+'') tstr)))
      else (tstr, None))"

definition parse_isoformat_time :: "string \<Rightarrow> ((int \<times> int \<times> int \<times> int) \<times> int option) option" where
  "parse_isoformat_time tstr =
     (if length tstr < 2 then None
      else case tz_split tstr of
        (timestr, tz) \<Rightarrow>
          (case parse_hh_mm_ss_ff timestr of
             None \<Rightarrow> None
           | Some comps \<Rightarrow>
               (case tz of
                  None \<Rightarrow> Some (comps, None)
                | Some (sign, tzstr) \<Rightarrow>
                    if length tzstr \<notin> {5, 8, 15} then None
                    else (case parse_hh_mm_ss_ff tzstr of
                            None \<Rightarrow> None
                          | Some (h, m, s, us) \<Rightarrow>
                              (let td = ((h * 60 + m) * 60 + s) * 1000000 + us;
                                   off = (if sign = CHR ''-'' then - td else td)
                               in if td < 86400000000 then Some (comps, Some off) else None)))))"

definition is_leap :: "int \<Rightarrow> bool" where
  "is_leap y = (y mod 4 = 0 \<and> (y mod 100 \<noteq> 0 \<or> y mod 400 = 0))"

definition days_in_month :: "int \<Rightarrow> int \<Rightarrow> int" where
  "days_in_month y m =
     (if m = 2 then (if is_leap y then 29 else 28)
      else if m \<in> {4, 6, 9, 11} then 30 else 31)"

definition make_datetime :: "int \<Rightarrow> int \<Rightarrow> int \<Rightarrow> int \<Rightarrow> int \<Rightarrow> int \<Rightarrow> int \<Rightarrow> int option \<Rightarrow> datetime option" where
  "make_datetime y m d hh mm ss us tz =
     (if 1 \<le> y \<and> y \<le> 9999 \<and> 1 \<le> m \<and> m \<le> 12 \<and> 1 \<le> d \<and> d \<le> days_in_month y m
         \<and> 0 \<le> hh \<and> hh < 24 \<and> 0 \<le> mm \<and> mm < 60 \<and> 0 \<le> ss \<and> ss < 60 \<and> 0 \<le> us \<and> us < 1000000
      then Some \<lparr>year = y, month = m, day = d, hour = hh, minute = mm, second = ss,
                 microsecond = us, utcoffset = tz\<rparr>
      else None)"

definition datetime_fromisoformat :: "string \<Rightarrow> datetime option" where
  "datetime_fromisoformat date_string =
     (if length date_string < 10 then None
      else case parse_isoformat_date (take 10 date_string) of
        None \<Rightarrow> None
      | Some (y, m, d) \<Rightarrow>
          (let tstr = drop 11 date_string in
           if tstr = [] then make_datetime y m d 0 0 0 0 None
           else case parse_isoformat_time tstr of
             None \<Rightarrow> None
           | Some ((hh, mm, ss, us), tz) \<Rightarrow> make_datetime y m d hh mm ss us tz))"

subsection \<open>The runtime\<close>

definition runtime :: "(invocation \<Rightarrow> run_outcome) \<Rightarrow> platform" where
  "runtime tool = \<lparr>spawn = tool, loads = json_loads, fromisoformat = datetime_fromisoformat\<rparr>"

text \<open>A tool that answers every invocation the same way.\<close>

definition answers :: "run_outcome \<Rightarrow> invocation \<Rightarrow> run_outcome" where
  "answers r call = r"

text \<open>The module's \<^verbatim>\<open>_default_client = PadzClient()\<close>.\<close>

definition default_client :: padz_client where
  "default_client = \<lparr>cwd = None\<rparr>"

section \<open>Vocabulary of the properties\<close>


text \<open>
  \<^verbatim>\<open>json.loads\<close> decodes a text cleanly when it returns a value or raises
  \<^verbatim>\<open>json.JSONDecodeError\<close>, the exception the module expects of it. The output of a
  completed process decodes cleanly when that holds of standard output and of the
  text \<^verbatim>\<open>_exec\<close> takes its failure message from.
\<close>

definition decodes_cleanly :: "platform \<Rightarrow> string \<Rightarrow> bool" where
  "decodes_cleanly P s = (case loads P s of Inl e \<Rightarrow> e = JSONDecodeError | Inr data \<Rightarrow> True)"

fun clean_outcome :: "platform \<Rightarrow> run_outcome \<Rightarrow> bool" where
  "clean_outcome P (Completed rc out err) =
     (decodes_cleanly P out \<and> decodes_cleanly P (error_msg rc out err))"
| "clean_outcome P (Raised e) = True"


section \<open>Properties of the execute step\<close>

lemma except_clauses_PadzError [simp]: "except_clauses (PadzError m) = PadzError m"
  by (simp add: except_clauses_def)

lemma exec_completed:
  assumes "spawn P \<lparr>inv_cmd = ''padz'' # args, inv_cwd = cwd self, inv_input = inp\<rparr> = Completed rc out err"
  shows "exec P self args inp procs =
     (case (case (if out \<noteq> [] then embedded_error P out else None) of
              Some e \<Rightarrow> Inl e
            | None \<Rightarrow>
                if rc \<noteq> 0 then
                  (case embedded_error P (error_msg rc out err) of
                     Some e \<Rightarrow> Inl e
                   | None \<Rightarrow> Inl (PadzError (JString (strip (error_msg rc out err)))))
                else Inr out) of
        Inl e \<Rightarrow> Inl (except_clauses e)
      | Inr out' \<Rightarrow> Inr out',
      procs @ [\<lparr>inv_cmd = ''padz'' # args, inv_cwd = cwd self, inv_input = inp\<rparr>])"
  using assms unfolding exec_def subprocess_run_def Let_def by simp

lemma embedded_error_Some:
  "loads P s = Inr (JObject kvs) \<Longrightarrow> map_of kvs ''error'' = Some msg \<Longrightarrow>
   embedded_error P s = Some (PadzError msg)"
  by (simp add: embedded_error_def)

lemma in_keys_iff: "k \<in> fst ` set kvs \<longleftrightarrow> (\<exists>v. map_of kvs k = Some v)"
  by (metis domD domI dom_map_of_conv_image_fst)

lemma embedded_error_clean_cases:
  assumes "decodes_cleanly P s"
  shows "embedded_error P s =
     (case loads P s of
        Inr (JObject kvs) \<Rightarrow>
          (case map_of kvs ''error'' of Some msg \<Rightarrow> Some (PadzError msg) | None \<Rightarrow> None)
      | _ \<Rightarrow> None)"
  using assms
  by (cases "loads P s") (auto simp: embedded_error_def decodes_cleanly_def split: json.splits)

lemma embedded_error_clean_None_iff:
  assumes "decodes_cleanly P s"
  shows "embedded_error P s = None \<longleftrightarrow>
     \<not> (\<exists>kvs. loads P s = Inr (JObject kvs) \<and> ''error'' \<in> fst ` set kvs)"
  unfolding embedded_error_clean_cases [OF assms] in_keys_iff
  by (auto split: sum.splits json.splits option.splits)

text \<open>
  C1. Whenever standard output is non-empty and decodes to a JSON object with the key
  \<^verbatim>\<open>"error"\<close>, \<^verbatim>\<open>_exec\<close> fails with a \<^verbatim>\<open>PadzError\<close> carrying the value stored under that
  key. The exit code \<open>rc\<close> and standard error \<open>err\<close> are arbitrary: the check on
  standard output comes before the exit code is looked at, so the call fails in the
  same way when the exit code is 0.
\<close>

theorem exec_embedded_error_first:
  assumes "spawn P \<lparr>inv_cmd = ''padz'' # args, inv_cwd = cwd self, inv_input = inp\<rparr> = Completed rc out err"
    and "out \<noteq> []"
    and "loads P out = Inr (JObject kvs)"
    and "map_of kvs ''error'' = Some msg"
  shows "fst (exec P self args inp procs) = Inl (PadzError msg)"
  using assms by (simp add: exec_completed embedded_error_Some)

lemma loads_error_boom:
  \<open>json_loads ''{"error": "boom"}'' = Inr (JObject [(''error'', JString ''boom'')])\<close>
  by code_simp

theorem exec_embedded_error_first_witness:
  \<open>spawn (runtime (answers (Completed 0 ''{"error": "boom"}'' '''')))
       \<lparr>inv_cmd = ''padz'' # list_args False False, inv_cwd = cwd default_client, inv_input = None\<rparr>
     = Completed 0 ''{"error": "boom"}'' ''''
   \<and> ''{"error": "boom"}'' \<noteq> []
   \<and> loads (runtime (answers (Completed 0 ''{"error": "boom"}'' ''''))) ''{"error": "boom"}''
       = Inr (JObject [(''error'', JString ''boom'')])
   \<and> map_of [(''error'', JString ''boom'')] ''error'' = Some (JString ''boom'')
   \<and> fst (exec (runtime (answers (Completed 0 ''{"error": "boom"}'' ''''))) default_client
         (list_args False False) None []) = Inl (PadzError (JString ''boom''))\<close>
proof -
  let ?P = \<open>runtime (answers (Completed 0 ''{"error": "boom"}'' ''''))\<close>
  have sp: \<open>spawn ?P \<lparr>inv_cmd = ''padz'' # list_args False False, inv_cwd = cwd default_client, inv_input = None\<rparr>
     = Completed 0 ''{"error": "boom"}'' ''''\<close>
    by (simp add: runtime_def answers_def)
  have ld: \<open>loads ?P ''{"error": "boom"}'' = Inr (JObject [(''error'', JString ''boom'')])\<close>
    by (simp add: runtime_def loads_error_boom)
  have mp: "map_of [(''error'', JString ''boom'')] ''error'' = Some (JString ''boom'')"
    by simp
  have ne: \<open>''{"error": "boom"}'' \<noteq> []\<close> by simp
  from exec_embedded_error_first [OF sp ne ld mp]
  show ?thesis using sp ld by simp
qed

text \<open>
  Where \<^verbatim>\<open>json.loads\<close> decodes the output of the process cleanly, a non-zero exit code
  without an embedded error on standard output makes \<^verbatim>\<open>_exec\<close> fail with a \<^verbatim>\<open>PadzError\<close>
  whose message comes from \<open>error_msg\<close>: the value under \<^verbatim>\<open>"error"\<close> if that text decodes
  to a JSON object with this key, the text without its surrounding whitespace
  otherwise.
\<close>

lemma exec_nonzero_exit_clean:
  assumes "spawn P \<lparr>inv_cmd = ''padz'' # args, inv_cwd = cwd self, inv_input = inp\<rparr> = Completed rc out err"
    and "rc \<noteq> 0"
    and "\<not> (out \<noteq> [] \<and> (\<exists>kvs. loads P out = Inr (JObject kvs) \<and> ''error'' \<in> fst ` set kvs))"
    and "clean_outcome P (Completed rc out err)"
  shows "\<exists>m. fst (exec P self args inp procs) = Inl (PadzError m)
       \<and> (\<forall>kvs v. loads P (error_msg rc out err) = Inr (JObject kvs) \<and> map_of kvs ''error'' = Some v
             \<longrightarrow> m = v)
       \<and> ((\<nexists>kvs. loads P (error_msg rc out err) = Inr (JObject kvs) \<and> ''error'' \<in> fst ` set kvs)
             \<longrightarrow> m = JString (strip (error_msg rc out err)))"
proof -
  define t where "t = error_msg rc out err"
  have clean: "decodes_cleanly P out" "decodes_cleanly P t"
    using assms(4) by (simp_all add: t_def)
  have no_embedded: "(if out \<noteq> [] then embedded_error P out else None) = None"
    using assms(3) by (auto simp: embedded_error_clean_None_iff [OF clean(1)])
  have run: "fst (exec P self args inp procs) =
      (case embedded_error P t of
         Some e \<Rightarrow> Inl (except_clauses e)
       | None \<Rightarrow> Inl (PadzError (JString (strip t))))"
    using assms(1,2) no_embedded by (simp add: exec_completed t_def split: option.splits)
  show ?thesis
  proof (cases "embedded_error P t")
    case None
    then have "\<nexists>kvs. loads P t = Inr (JObject kvs) \<and> ''error'' \<in> fst ` set kvs"
      by (simp add: embedded_error_clean_None_iff [OF clean(2)])
    moreover from None run have "fst (exec P self args inp procs) = Inl (PadzError (JString (strip t)))"
      by simp
    ultimately show ?thesis
      unfolding t_def [symmetric] in_keys_iff by blast
  next
    case (Some e)
    then obtain kvs msg where kv: "loads P t = Inr (JObject kvs)" "map_of kvs ''error'' = Some msg"
        "e = PadzError msg"
      unfolding embedded_error_clean_cases [OF clean(2)]
      by (auto split: sum.splits json.splits option.splits)
    from Some run kv(3) have "fst (exec P self args inp procs) = Inl (PadzError msg)"
      by simp
    moreover have "''error'' \<in> fst ` set kvs"
      using kv(2) by (auto simp: in_keys_iff)
    ultimately show ?thesis
      unfolding t_def [symmetric]
      using kv by auto
  qed
qed

text \<open>
  An integer literal of 4301 digits: \<^verbatim>\<open>json.loads\<close> raises \<^verbatim>\<open>ValueError\<close>, which is not a
  \<^verbatim>\<open>json.JSONDecodeError\<close>.
\<close>

lemma loads_long_integer: "json_loads (replicate 4301 (CHR ''1'')) = Inl (ValueError [])"
proof -
  define s where "s = replicate 4300 (CHR ''1'')"
  have split: "replicate 4301 (CHR ''1'') = CHR ''1'' # s"
  proof -
    have "(4301::nat) = Suc 4300" by simp
    then show ?thesis by (simp only: replicate_Suc s_def)
  qed
  have digits: "takeWhile is_digit s = s"
    by (simp add: s_def is_digit_def)
  have len: "length s = 4300"
    by (simp add: s_def)
  have "scan_number (CHR ''1'' # s) = Inl (ValueError [])"
    by (simp add: scan_number_def Let_def is_digit_def digits len)
  then have "parse_value (Suc n) (CHR ''1'' # s) = Inl (ValueError [])" for n
    by simp
  then show ?thesis
    by (simp add: json_loads_def skip_ws_def json_ws_def split)
qed

text \<open>
  C2 does not hold of the code. The child exits with 1 and writes an integer of 4301
  digits to standard output, which is not a JSON object with the key \<^verbatim>\<open>"error"\<close>. C2
  asks for a \<^verbatim>\<open>PadzError\<close> whose message is that text. The first error check of \<^verbatim>\<open>_exec\<close>
  calls \<^verbatim>\<open>json.loads\<close> on it, the \<^verbatim>\<open>ValueError\<close> is not caught by \<^verbatim>\<open>except
  json.JSONDecodeError\<close> nor by the two clauses that close the \<^verbatim>\<open>try\<close>, and it leaves
  \<^verbatim>\<open>_exec\<close> in place of the \<^verbatim>\<open>PadzError\<close>.
\<close>

theorem exec_raises_ValueError_on_long_integer:
  "json_loads (replicate 4301 (CHR ''1'')) = Inl (ValueError [])
   \<and> fst (exec (runtime (answers (Completed 1 (replicate 4301 (CHR ''1'')) []))) default_client
          (list_args False False) None [])
       = Inl (ValueError [])
   \<and> \<not> is_PadzError (ValueError [])"
proof -
  define out where "out = replicate 4301 (CHR ''1'')"
  have "out \<noteq> []"
    by (simp add: out_def)
  moreover have "json_loads out = Inl (ValueError [])"
    by (simp add: out_def loads_long_integer)
  ultimately show ?thesis
    unfolding out_def [symmetric]
    by (simp add: exec_def subprocess_run_def runtime_def answers_def embedded_error_def
        except_clauses_def Let_def)
qed

section \<open>Properties of the methods\<close>

lemma exec_spawns_once:
  "snd (exec P self args inp procs) =
     procs @ [\<lparr>inv_cmd = ''padz'' # args, inv_cwd = cwd self, inv_input = inp\<rparr>]"
  unfolding exec_def subprocess_run_def Let_def by simp

lemma exec_loads_spawns_once:
  "snd (exec_loads P self args inp f procs) =
     procs @ [\<lparr>inv_cmd = ''padz'' # args, inv_cwd = cwd self, inv_input = inp\<rparr>]"
  using exec_spawns_once [of P self args inp procs]
  by (cases "exec P self args inp procs") (simp add: exec_loads_def split: sum.splits)


lemma exec_returns_stdout:
  assumes "spawn P \<lparr>inv_cmd = ''padz'' # args, inv_cwd = cwd self, inv_input = inp\<rparr> = Completed 0 out err"
    and "\<not> (out \<noteq> [] \<and> (\<exists>kvs. loads P out = Inr (JObject kvs) \<and> ''error'' \<in> fst ` set kvs))"
    and "decodes_cleanly P out"
  shows "fst (exec P self args inp procs) = Inr out"
proof -
  have "(if out \<noteq> [] then embedded_error P out else None) = None"
    using assms(2) by (auto simp: embedded_error_clean_None_iff [OF assms(3)])
  then show ?thesis
    using assms(1) by (simp add: exec_completed)
qed

lemma exec_loads_after_success:
  "fst (exec P self args inp procs) = Inr out \<Longrightarrow>
   fst (exec_loads P self args inp f procs) =
     (case loads P out of Inl e \<Rightarrow> Inl e | Inr data \<Rightarrow> f data)"
  by (cases "exec P self args inp procs") (simp add: exec_loads_def split: sum.splits)












text \<open>
  C4. Whatever \<open>all\<close> is, \<^verbatim>\<open>nuke\<close> with \<^verbatim>\<open>yes=False\<close> fails with a \<^verbatim>\<open>PadzError\<close> and leaves
  the list of spawned subprocesses as it was; with \<^verbatim>\<open>yes=True\<close> it spawns exactly one
  subprocess, whose argument vector contains \<^verbatim>\<open>--yes\<close>.
\<close>

theorem nuke_confirmation_gate:
  "nuke P self all False procs =
     (Inl (PadzError (JString ''Must set yes=True for non-interactive nuke operation'')), procs)
   \<and> snd (nuke P self all True procs) =
       procs @ [\<lparr>inv_cmd = ''padz'' # nuke_args all, inv_cwd = cwd self, inv_input = None\<rparr>]
   \<and> ''--yes'' \<in> set (nuke_args all)"
  by (simp add: nuke_def exec_loads_spawns_once nuke_args_def)

theorem nuke_confirmation_gate_witness:
  "nuke (runtime (answers (Completed 0 [] []))) default_client True False [] =
     (Inl (PadzError (JString ''Must set yes=True for non-interactive nuke operation'')), [])
   \<and> snd (nuke (runtime (answers (Completed 0 [] []))) default_client True True []) =
       [\<lparr>inv_cmd = [''padz'', ''nuke'', ''--format'', ''json'', ''--yes'', ''--all''],
         inv_cwd = None, inv_input = None\<rparr>]"
  using nuke_confirmation_gate [of "runtime (answers (Completed 0 [] []))" default_client True "[]"]
  by (simp add: nuke_args_def flag_def default_client_def)

text \<open>
  C5, as amended. When the executable cannot be found, \<^verbatim>\<open>_exec\<close> fails with the
  module's one exception class, \<^verbatim>\<open>PadzError\<close>, carrying a fixed message that depends on
  nothing. The module declares no subclass for this case.
\<close>

theorem exec_tool_not_found:
  assumes "spawn P \<lparr>inv_cmd = ''padz'' # args, inv_cwd = cwd self, inv_input = inp\<rparr> = Raised FileNotFoundError"
  shows "fst (exec P self args inp procs) =
     Inl (PadzError (JString ''padz command not found. Please ensure padz is installed and in PATH''))"
  using assms unfolding exec_def subprocess_run_def Let_def
  by (simp add: except_clauses_def)

theorem exec_tool_not_found_witness:
  "fst (exec (runtime (answers (Raised FileNotFoundError))) (with_cwd default_client ''/tmp'')
         (cleanup_args 30) None []) =
     Inl (PadzError (JString ''padz command not found. Please ensure padz is installed and in PATH''))"
  by (rule exec_tool_not_found) (simp add: runtime_def answers_def)

text \<open>
  C5 as stated fails: the failure for a missing executable is the same value as the
  failure for a tool that ran, exited with 1 and wrote the same sentence to standard
  error. No exception type sets the two apart.
\<close>

lemma loads_not_found_text:
  "json_loads ''padz command not found. Please ensure padz is installed and in PATH'' = Inl JSONDecodeError"
  by code_simp

theorem tool_not_found_is_plain_PadzError:
  "fst (exec (runtime (answers (Raised FileNotFoundError))) default_client (list_args False False) None [])
     = Inl (PadzError (JString ''padz command not found. Please ensure padz is installed and in PATH''))
   \<and> fst (exec (runtime (answers (Completed 1 []
            ''padz command not found. Please ensure padz is installed and in PATH'')))
          default_client (list_args False False) None [])
     = Inl (PadzError (JString ''padz command not found. Please ensure padz is installed and in PATH''))"
  unfolding exec_def subprocess_run_def Let_def
  by (simp add: runtime_def answers_def embedded_error_def error_msg_def except_clauses_def
      loads_not_found_text strip_def isspace_def)

text \<open>
  C7. \<^verbatim>\<open>create\<close> with the empty string raises, and the list of spawned subprocesses is
  as it was.
\<close>

theorem create_empty_content:
  "create P self [] procs = (Inl (ValueError ''Content cannot be empty''), procs)"
  by (simp add: create_def)

theorem create_empty_content_witness:
  "create (runtime (answers (Completed 0 [] []))) default_client [] [] =
     (Inl (ValueError ''Content cannot be empty''), [])"
  by (rule create_empty_content)

lemma except_clauses_covered:
  "is_PadzError (except_clauses FileNotFoundError)" "is_PadzError (except_clauses (SubprocessError m))"
  by (simp_all add: except_clauses_def)
















lemma map_of_missing:
  "k \<notin> fst ` set kvs \<Longrightarrow> map_of kvs k = None"
  by (simp add: map_of_eq_None_iff)

text \<open>
  C10. Let the child exit with 0 and write a non-empty standard output. If the output
  is not valid JSON, each of \<^verbatim>\<open>create\<close>, \<^verbatim>\<open>list\<close>, \<^verbatim>\<open>view\<close>, \<^verbatim>\<open>peek\<close>, \<^verbatim>\<open>path\<close>, \<^verbatim>\<open>search\<close>
  and \<^verbatim>\<open>nuke\<close> raises \<^verbatim>\<open>JSONDecodeError\<close>. If it is a JSON object with neither the key
  \<^verbatim>\<open>"error"\<close> nor the first key the method reads, then \<^verbatim>\<open>create\<close>, \<^verbatim>\<open>view\<close>, \<^verbatim>\<open>peek\<close>,
  \<^verbatim>\<open>path\<close> and \<^verbatim>\<open>nuke\<close> raise \<^verbatim>\<open>KeyError\<close>. Neither exception is a \<^verbatim>\<open>PadzError\<close>.
\<close>

theorem decode_errors_escape:
  assumes "\<And>call. spawn P call = Completed 0 out err"
    and "out \<noteq> []"
  shows "(loads P out = Inl JSONDecodeError \<longrightarrow>
            fst (create P self (c # content) procs) = Inl JSONDecodeError
          \<and> fst (list P self all global procs) = Inl JSONDecodeError
          \<and> fst (view P self index all global procs) = Inl JSONDecodeError
          \<and> fst (peek P self index all global lines procs) = Inl JSONDecodeError
          \<and> fst (path P self index all procs) = Inl JSONDecodeError
          \<and> fst (search P self term all global procs) = Inl JSONDecodeError
          \<and> fst (nuke P self all True procs) = Inl JSONDecodeError)
    \<and> (\<forall>kvs. loads P out = Inr (JObject kvs) \<and> ''error'' \<notin> fst ` set kvs \<longrightarrow>
            (''id'' \<notin> fst ` set kvs \<longrightarrow>
               fst (create P self (c # content) procs) = Inl (KeyError ''id''))
          \<and> (''content'' \<notin> fst ` set kvs \<longrightarrow>
               fst (view P self index all global procs) = Inl (KeyError ''content'')
             \<and> fst (peek P self index all global lines procs) = Inl (KeyError ''content''))
          \<and> (''path'' \<notin> fst ` set kvs \<longrightarrow>
               fst (path P self index all procs) = Inl (KeyError ''path''))
          \<and> (''deleted_count'' \<notin> fst ` set kvs \<longrightarrow>
               fst (nuke P self all True procs) = Inl (KeyError ''deleted_count'')))
    \<and> \<not> is_PadzError JSONDecodeError
    \<and> (\<forall>k. \<not> is_PadzError (KeyError k))"
proof -
  have undecodable: "fst (exec_loads P self a i f procs) = Inl JSONDecodeError"
    if "loads P out = Inl JSONDecodeError" for a i and f :: "json \<Rightarrow> exn + 'b"
  proof -
    have "fst (exec P self a i procs) = Inr out"
      using assms(1) that by (intro exec_returns_stdout) (auto simp: decodes_cleanly_def)
    then show ?thesis
      using that by (simp add: exec_loads_after_success)
  qed
  have decoded: "fst (exec_loads P self a i f procs) = f (JObject kvs)"
    if "loads P out = Inr (JObject kvs)" "''error'' \<notin> fst ` set kvs"
    for a i kvs and f :: "json \<Rightarrow> exn + 'b"
  proof -
    have "fst (exec P self a i procs) = Inr out"
      using assms(1) that by (intro exec_returns_stdout) (auto simp: decodes_cleanly_def)
    then show ?thesis
      using that by (simp add: exec_loads_after_success)
  qed
  have 1: "loads P out = Inl JSONDecodeError \<longrightarrow>
            fst (create P self (c # content) procs) = Inl JSONDecodeError
          \<and> fst (list P self all global procs) = Inl JSONDecodeError
          \<and> fst (view P self index all global procs) = Inl JSONDecodeError
          \<and> fst (peek P self index all global lines procs) = Inl JSONDecodeError
          \<and> fst (path P self index all procs) = Inl JSONDecodeError
          \<and> fst (search P self term all global procs) = Inl JSONDecodeError
          \<and> fst (nuke P self all True procs) = Inl JSONDecodeError"
    by (simp add: create_def list_def view_def peek_def path_def search_def nuke_def undecodable)
  have 2: "fst (create P self (c # content) procs) = Inl (KeyError ''id'')"
    if "loads P out = Inr (JObject kvs)" "''error'' \<notin> fst ` set kvs" "''id'' \<notin> fst ` set kvs" for kvs
    using that by (simp add: create_def decoded from_dict_def map_of_missing)
  have 3: "fst (view P self index all global procs) = Inl (KeyError ''content'')
         \<and> fst (peek P self index all global lines procs) = Inl (KeyError ''content'')"
    if "loads P out = Inr (JObject kvs)" "''error'' \<notin> fst ` set kvs" "''content'' \<notin> fst ` set kvs" for kvs
    using that by (simp add: view_def peek_def decoded map_of_missing)
  have 4: "fst (path P self index all procs) = Inl (KeyError ''path'')"
    if "loads P out = Inr (JObject kvs)" "''error'' \<notin> fst ` set kvs" "''path'' \<notin> fst ` set kvs" for kvs
    using that by (simp add: path_def decoded map_of_missing)
  have 5: "fst (nuke P self all True procs) = Inl (KeyError ''deleted_count'')"
    if "loads P out = Inr (JObject kvs)" "''error'' \<notin> fst ` set kvs"
       "''deleted_count'' \<notin> fst ` set kvs" for kvs
    using that by (simp add: nuke_def decoded nuke_result_of_def map_of_missing)
  have 6: "\<not> is_PadzError JSONDecodeError" "\<forall>k. \<not> is_PadzError (KeyError k)"
    by simp_all
  from 1 2 3 4 5 6 show ?thesis by blast
qed

lemma loads_not_json: "json_loads ''not json'' = Inl JSONDecodeError"
  by code_simp

lemma loads_empty_object: "json_loads ''{}'' = Inr (JObject [])"
  by code_simp

theorem decode_errors_escape_witness:
  "json_loads ''not json'' = Inl JSONDecodeError
   \<and> fst (create (runtime (answers (Completed 0 ''not json'' []))) default_client ''buy milk'' [])
       = Inl JSONDecodeError
   \<and> fst (list (runtime (answers (Completed 0 ''not json'' []))) default_client False False [])
       = Inl JSONDecodeError
   \<and> \<not> is_PadzError JSONDecodeError
   \<and> json_loads ''{}'' = Inr (JObject [])
   \<and> fst (view (runtime (answers (Completed 0 ''{}'' []))) default_client 1 False False [])
       = Inl (KeyError ''content'')
   \<and> \<not> is_PadzError (KeyError ''content'')"
proof -
  let ?A = "runtime (answers (Completed 0 ''not json'' []))"
  let ?B = "runtime (answers (Completed 0 ''{}'' []))"
  have a: "spawn ?A call = Completed 0 ''not json'' []" for call
    by (simp add: runtime_def answers_def)
  have b: "spawn ?B call = Completed 0 ''{}'' []" for call
    by (simp add: runtime_def answers_def)
  have la: "loads ?A ''not json'' = Inl JSONDecodeError"
    by (simp add: runtime_def loads_not_json)
  have lb: "loads ?B ''{}'' = Inr (JObject [])"
    by (simp add: runtime_def loads_empty_object)
  have "fst (create ?A default_client ''buy milk'' []) = Inl JSONDecodeError
      \<and> fst (list ?A default_client False False []) = Inl JSONDecodeError"
    using decode_errors_escape [OF a, where self = default_client and c = "CHR ''b''"
        and content = "''uy milk''" and procs = "[]" and all = False and global = False]
      la by simp
  moreover have "fst (view ?B default_client 1 False False []) = Inl (KeyError ''content'')"
    using decode_errors_escape [OF b, where self = default_client and procs = "[]" and index = 1
        and all = False and global = False] lb by simp
  ultimately show ?thesis
    by (simp add: loads_not_json loads_empty_object)
qed

end
